theory Spec2Isabelle
  imports Main
begin

unbundle bit_operations_syntax

section \<open>Python values used by linenoise.py\<close>

text \<open>
  The source is Python 2: a \<open>str\<close> is a byte string, modelled as \<open>string\<close>
  (a list of 8-bit \<open>char\<close>); Python's unbounded integers are \<open>int\<close>, and counts that
  only grow from 0 are \<open>nat\<close>. Every exception the source can raise is a value of
  \<open>py_error\<close>; a function that can raise returns \<open>py_error + 'a\<close> together with the
  state it has reached, because Python keeps the mutations made before the raise.
\<close>

datatype py_error = TypeError | ValueError | IndexError | AttributeError

text \<open>\<open>ord(s)\<close>: defined on strings of length one, \<open>TypeError\<close> otherwise.\<close>

fun py_ord :: "string \<Rightarrow> py_error + nat" where
  "py_ord [c] = Inr (of_char c)"
| "py_ord s = Inl TypeError"

text \<open>\<open>chr(n)\<close>: defined on \<open>range(256)\<close>, \<open>ValueError\<close> otherwise.\<close>

definition py_chr :: "nat \<Rightarrow> py_error + char" where
  "py_chr n = (if n < 256 then Inr (char_of n) else Inl ValueError)"

text \<open>\<open>[chr(c) for c in xs]\<close> joined into one string; the first failing \<open>chr\<close> raises.\<close>

fun chr_join :: "nat list \<Rightarrow> py_error + string" where
  "chr_join [] = Inr []"
| "chr_join (n # ns) =
     (case py_chr n of
        Inl e \<Rightarrow> Inl e
      | Inr c \<Rightarrow> (case chr_join ns of Inl e \<Rightarrow> Inl e | Inr cs \<Rightarrow> Inr (c # cs)))"

text \<open>\<open>sep.join(xs)\<close> for a one-character separator.\<close>

fun py_join :: "char \<Rightarrow> string list \<Rightarrow> string" where
  "py_join sep [] = []"
| "py_join sep [x] = x"
| "py_join sep (x # y # ys) = x @ sep # py_join sep (y # ys)"

text \<open>\<open>s.split(sep)\<close> for a one-character separator: never the empty list.\<close>

fun py_split :: "char \<Rightarrow> string \<Rightarrow> string list" where
  "py_split sep [] = [[]]"
| "py_split sep (c # cs) =
     (if c = sep then [] # py_split sep cs
      else (case py_split sep cs of
              [] \<Rightarrow> [[c]]
            | p # ps \<Rightarrow> (c # p) # ps))"

text \<open>The whitespace of \<open>str.strip()\<close> and of \<open>int()\<close>: space, \<open>\t \n \v \f \r\<close>.\<close>

definition is_space :: "char \<Rightarrow> bool" where
  "is_space c = (c \<in> set [CHR '' '', CHR 0x09, CHR 0x0A, CHR 0x0B, CHR 0x0C, CHR 0x0D])"

definition py_strip :: "string \<Rightarrow> string" where
  "py_strip s = rev (dropWhile is_space (rev (dropWhile is_space s)))"

definition is_digit :: "char \<Rightarrow> bool" where
  "is_digit c = (48 \<le> (of_char c :: nat) \<and> (of_char c :: nat) \<le> 57)"

definition digits_val :: "string \<Rightarrow> nat" where
  "digits_val ds = foldl (\<lambda>a c. 10 * a + (of_char c - 48)) 0 ds"

text \<open>
  \<open>int(s, 10)\<close>: surrounding whitespace is dropped, one sign is allowed, and what is
  left must be a non-empty run of decimal digits; anything else is \<open>ValueError\<close>.
\<close>

definition py_int :: "string \<Rightarrow> py_error + int" where
  "py_int s =
     (let t = py_strip s;
          neg = (t \<noteq> [] \<and> hd t = CHR ''-'');
          ds = (if t \<noteq> [] \<and> (hd t = CHR ''-'' \<or> hd t = CHR ''+'') then tl t else t)
      in if ds \<noteq> [] \<and> list_all is_digit ds
         then Inr (if neg then - int (digits_val ds) else int (digits_val ds))
         else Inl ValueError)"

text \<open>
  \<open>f.readlines()\<close> on a file opened with mode \<open>'r'\<close>: the content is cut after every
  newline, each line keeps its newline, and a last line without one is kept as it is.
\<close>

fun readlines_acc :: "string \<Rightarrow> string \<Rightarrow> string list" where
  "readlines_acc cur [] = (if cur = [] then [] else [cur])"
| "readlines_acc cur (c # cs) =
     (if c = CHR 0x0A then (cur @ [c]) # readlines_acc [] cs
      else readlines_acc (cur @ [c]) cs)"

definition py_readlines :: "string \<Rightarrow> string list" where
  "py_readlines s = readlines_acc [] s"

section \<open>The terminal, the descriptors and the file system\<close>

text \<open>
  \<open>termios.tcgetattr\<close> returns the list
  \<open>[iflag, oflag, cflag, lflag, ispeed, ospeed, cc]\<close>; the source indexes it with
  \<open>C_IFLAG = 0\<close>, \<open>C_OFLAG = 1\<close>, \<open>C_CFLAG = 2\<close>, \<open>C_LFLAG = 3\<close> and \<open>C_CC = 6\<close>.
\<close>

record termios =
  c_iflag :: int
  c_oflag :: int
  c_cflag :: int
  c_lflag :: int
  c_ispeed :: int
  c_ospeed :: int
  c_cc :: "int list"

text \<open>The flag values of the \<open>termios\<close> module on Linux.\<close>

definition BRKINT :: int where "BRKINT = 0x2"
definition ICRNL :: int where "ICRNL = 0x100"
definition INPCK :: int where "INPCK = 0x10"
definition ISTRIP :: int where "ISTRIP = 0x20"
definition IXON :: int where "IXON = 0x400"
definition OPOST :: int where "OPOST = 0x1"
definition CS8 :: int where "CS8 = 0x30"
definition ECHO :: int where "ECHO = 0x8"
definition ICANON :: int where "ICANON = 0x2"
definition IEXTEN :: int where "IEXTEN = 0x8000"
definition ISIG :: int where "ISIG = 0x1"
definition VMIN :: nat where "VMIN = 6"
definition VTIME :: nat where "VTIME = 5"

text \<open>Files are regular files in a flat name space: a permission mode and the content.\<close>

record regfile =
  fmode :: int
  content :: string

text \<open>
  The world outside the interpreter. One terminal device is attached to the descriptors
  in \<open>tty_fds\<close>; \<open>attrs\<close> are its current attributes. \<open>winsize\<close> is what the
  \<open>TIOCGWINSZ\<close> ioctl on standard output answers (rows, columns), \<open>None\<close> when the ioctl
  raises. \<open>inbytes\<close> holds the bytes that reads will deliver, in order; once it is empty
  the descriptor is at end of file and \<open>os.read\<close> returns the empty string. \<open>outbytes\<close>
  collects what has been written. A single \<open>os.write\<close> accepts at most \<open>wlimit\<close>
  bytes and reports how many it took. The flush of pending input that \<open>TCSAFLUSH\<close> asks
  for is not modelled: \<open>inbytes\<close> is what arrives after it.
\<close>

record world =
  tty_fds :: "nat set"
  attrs :: termios
  winsize :: "(nat \<times> nat) option"
  inbytes :: string
  outbytes :: string
  wlimit :: nat
  files :: "string \<rightharpoonup> regfile"
  umask :: int

definition STDIN_FILENO :: nat where "STDIN_FILENO = 0"
definition STDOUT_FILENO :: nat where "STDOUT_FILENO = 1"

definition os_isatty :: "world \<Rightarrow> nat \<Rightarrow> bool" where
  "os_isatty w fd = (fd \<in> tty_fds w)"

definition os_read :: "world \<Rightarrow> nat \<Rightarrow> nat \<Rightarrow> string \<times> world" where
  "os_read w fd n = (take n (inbytes w), w\<lparr>inbytes := drop n (inbytes w)\<rparr>)"

definition os_write :: "world \<Rightarrow> nat \<Rightarrow> string \<Rightarrow> nat \<times> world" where
  "os_write w fd s =
     (let n = min (length s) (wlimit w)
      in (n, w\<lparr>outbytes := outbytes w @ take n s\<rparr>))"

text \<open>\<open>sys.stdout.write\<close> followed by the flush that delivers it to the terminal.\<close>

definition sys_stdout_write :: "world \<Rightarrow> string \<Rightarrow> world" where
  "sys_stdout_write w s = w\<lparr>outbytes := outbytes w @ s\<rparr>"

definition tcgetattr :: "world \<Rightarrow> nat \<Rightarrow> termios" where
  "tcgetattr w fd = attrs w"

definition tcsetattr :: "world \<Rightarrow> nat \<Rightarrow> termios \<Rightarrow> world" where
  "tcsetattr w fd t = w\<lparr>attrs := t\<rparr>"

section \<open>Key codes\<close>

definition ENTER :: nat where "ENTER = 13"
definition CTRL_C :: nat where "CTRL_C = 3"
definition ESC :: nat where "ESC = 27"
definition BACKSPACE :: nat where "BACKSPACE = 127"
definition DEFAULT_HISTORY_MAX_LEN :: int where "DEFAULT_HISTORY_MAX_LEN = 100"

section \<open>The history of class linenoise\<close>

text \<open>
  The object state of class \<open>linenoise\<close>. \<open>orig_termios\<close> is an attribute that does
  not exist until \<open>enable_rawmode\<close> assigns it: \<open>None\<close> until then.
\<close>

record linenoise =
  history :: "string list"
  history_maxlen :: int
  rawmode :: bool
  atexit_registered :: bool
  orig_termios :: "termios option"

definition linenoise_init :: linenoise where
  "linenoise_init =
     \<lparr>history = [], history_maxlen = DEFAULT_HISTORY_MAX_LEN, rawmode = False,
      atexit_registered = False, orig_termios = None\<rparr>"

text \<open>
  The \<open>for prev_line in self.history\<close> loop of \<open>history_add\<close>: \<open>True\<close> when it leaves
  the method through its \<open>return\<close>.
\<close>

fun dup_scan :: "string \<Rightarrow> string list \<Rightarrow> bool" where
  "dup_scan line [] = False"
| "dup_scan line (prev_line # rest) =
     (if line = prev_line then True else dup_scan line rest)"

definition history_add :: "linenoise \<Rightarrow> string \<Rightarrow> linenoise" where
  "history_add self line =
     (if history_maxlen self = 0 then self
      else if dup_scan line (history self) then self
      else (let self1 =
                  (if int (length (history self)) = history_maxlen self
                   then self\<lparr>history := drop 1 (history self)\<rparr>
                   else self)
            in self1\<lparr>history := history self1 @ [line]\<rparr>))"

definition history_set_maxlen :: "linenoise \<Rightarrow> int \<Rightarrow> linenoise" where
  "history_set_maxlen self n =
     (if n < 0 then self
      else (let self1 = self\<lparr>history_maxlen := n\<rparr>;
                current_length = int (length (history self1))
            in if current_length > history_maxlen self1
               then self1\<lparr>history :=
                      drop (nat (current_length - history_maxlen self1)) (history self1)\<rparr>
               else self1))"

text \<open>
  \<open>history_save\<close>: the umask is set to \<open>S_IXUSR | S_IRWXG | S_IRWXO\<close> (0177) around
  the \<open>open(fname, 'w')\<close>, which truncates an existing file or creates one with mode
  0666 masked by the umask; \<open>os.chmod\<close> then sets the mode to
  \<open>S_IRUSR | S_IWUSR\<close> (0600), and the entries are written joined by newlines.
\<close>

definition open_w :: "world \<Rightarrow> string \<Rightarrow> world" where
  "open_w w fname =
     (case files w fname of
        None \<Rightarrow> w\<lparr>files := (files w)(fname \<mapsto> \<lparr>fmode = 0x1B6 AND NOT (umask w), content = []\<rparr>)\<rparr>
      | Some f \<Rightarrow> w\<lparr>files := (files w)(fname \<mapsto> f\<lparr>content := []\<rparr>)\<rparr>)"

definition os_chmod :: "world \<Rightarrow> string \<Rightarrow> int \<Rightarrow> world" where
  "os_chmod w fname m =
     (case files w fname of
        None \<Rightarrow> w
      | Some f \<Rightarrow> w\<lparr>files := (files w)(fname \<mapsto> f\<lparr>fmode := m\<rparr>)\<rparr>)"

definition f_write :: "world \<Rightarrow> string \<Rightarrow> string \<Rightarrow> world" where
  "f_write w fname s =
     (case files w fname of
        None \<Rightarrow> w
      | Some f \<Rightarrow> w\<lparr>files := (files w)(fname \<mapsto> f\<lparr>content := content f @ s\<rparr>)\<rparr>)"

definition history_save :: "linenoise \<Rightarrow> string \<Rightarrow> world \<Rightarrow> world" where
  "history_save self fname w =
     (let old_umask = umask w;
          w1 = w\<lparr>umask := 0x40 OR 0x38 OR 0x7\<rparr>;
          w2 = open_w w1 fname;
          w3 = w2\<lparr>umask := old_umask\<rparr>;
          w4 = os_chmod w3 fname (0x100 OR 0x80)
      in f_write w4 fname (py_join (CHR 0x0A) (history self)))"

definition os_path_isfile :: "world \<Rightarrow> string \<Rightarrow> bool" where
  "os_path_isfile w fname = (files w fname \<noteq> None)"

definition history_load :: "linenoise \<Rightarrow> string \<Rightarrow> world \<Rightarrow> linenoise" where
  "history_load self fname w =
     (let self1 = self\<lparr>history := []\<rparr>
      in if os_path_isfile w fname
         then (case files w fname of
                 None \<Rightarrow> self1
               | Some f \<Rightarrow> self1\<lparr>history := map py_strip (py_readlines (content f))\<rparr>)
         else self1)"

section \<open>Raw mode\<close>

text \<open>
  The attribute list \<open>raw\<close> that \<open>enable_rawmode\<close> builds from a second
  \<open>tcgetattr\<close>: its flag updates in the order of the source, then the two assignments
  into the control-character list, which raise \<open>IndexError\<close> on a list too short.
\<close>

definition raw_termios :: "termios \<Rightarrow> py_error + termios" where
  "raw_termios t =
     (let raw1 = t\<lparr>c_iflag := c_iflag t AND NOT (BRKINT OR ICRNL OR INPCK OR ISTRIP OR IXON)\<rparr>;
          raw2 = raw1\<lparr>c_oflag := c_oflag raw1 AND NOT OPOST\<rparr>;
          raw3 = raw2\<lparr>c_cflag := c_cflag raw2 OR CS8\<rparr>;
          raw4 = raw3\<lparr>c_lflag := c_lflag raw3 AND NOT (ECHO OR ICANON OR IEXTEN OR ISIG)\<rparr>
      in if VMIN < length (c_cc raw4)
         then (let raw5 = raw4\<lparr>c_cc := (c_cc raw4)[VMIN := 1]\<rparr>
               in if VTIME < length (c_cc raw5)
                  then Inr (raw5\<lparr>c_cc := (c_cc raw5)[VTIME := 0]\<rparr>)
                  else Inl IndexError)
         else Inl IndexError)"

definition enable_rawmode ::
  "linenoise \<Rightarrow> nat \<Rightarrow> world \<Rightarrow> (py_error + int) \<times> linenoise \<times> world" where
  "enable_rawmode self fd w =
     (if \<not> os_isatty w fd then (Inr (- 1), self, w)
      else (let self1 = (if \<not> atexit_registered self
                         then self\<lparr>atexit_registered := True\<rparr> else self);
                self2 = self1\<lparr>orig_termios := Some (tcgetattr w fd)\<rparr>
            in case raw_termios (tcgetattr w fd) of
                 Inl e \<Rightarrow> (Inl e, self2, w)
               | Inr raw \<Rightarrow> (Inr 0, self2\<lparr>rawmode := True\<rparr>, tcsetattr w fd raw)))"

definition disable_rawmode ::
  "linenoise \<Rightarrow> nat \<Rightarrow> world \<Rightarrow> (py_error + unit) \<times> linenoise \<times> world" where
  "disable_rawmode self fd w =
     (if rawmode self
      then (case orig_termios self of
              None \<Rightarrow> (Inl AttributeError, self, w)
            | Some t \<Rightarrow> (Inr (), self\<lparr>rawmode := False\<rparr>, tcsetattr w fd t))
      else (Inr (), self, w))"

text \<open>The exit hook: a carriage return on standard output, then \<open>disable_rawmode\<close>.\<close>

definition atexit :: "linenoise \<Rightarrow> world \<Rightarrow> (py_error + unit) \<times> linenoise \<times> world" where
  "atexit self w = disable_rawmode self STDIN_FILENO (sys_stdout_write w [CHR 0x0D])"

section \<open>The column query\<close>

text \<open>
  The \<open>while len(buf) < 32\<close> loop of \<open>get_cursor_position\<close>: one \<open>os.read\<close> of one
  byte per round, appended to \<open>buf\<close> as a string (empty at end of file), until that
  string is \<open>R\<close> or 32 strings are held.
\<close>

function read_response :: "world \<Rightarrow> nat \<Rightarrow> string list \<Rightarrow> string list \<times> world" where
  "read_response w fd rbuf =
     (if length rbuf < 32
      then (let r = os_read w fd 1;
                rbuf1 = rbuf @ [fst r]
            in if fst r = ''R'' then (rbuf1, snd r)
               else read_response (snd r) fd rbuf1)
      else (rbuf, w))"
  by pat_completeness auto
termination
  by (relation "measure (\<lambda>(w, fd, rbuf). 32 - length rbuf)") auto

text \<open>
  The parse that follows the loop: the three framing tests (each index raising
  \<open>IndexError\<close> where the list has no such element), the slice \<open>buf[2:-1]\<close>, the
  split at \<open>;\<close> unpacked into exactly two names, and \<open>int(cols, 10)\<close>.
\<close>

definition parse_response :: "string list \<Rightarrow> py_error + int" where
  "parse_response rbuf =
     (case rbuf of
        [] \<Rightarrow> Inl IndexError
      | b0 # rest \<Rightarrow>
          if b0 \<noteq> [char_of ESC] then Inr (- 1)
          else (case rest of
                  [] \<Rightarrow> Inl IndexError
                | b1 # rest1 \<Rightarrow>
                    if b1 \<noteq> ''['' then Inr (- 1)
                    else if last rbuf \<noteq> ''R'' then Inr (- 1)
                    else (case py_split (CHR '';'') (concat (butlast (drop 2 rbuf))) of
                            [rows, cols] \<Rightarrow> py_int cols
                          | parts \<Rightarrow> Inl ValueError)))"

definition get_cursor_position :: "nat \<Rightarrow> nat \<Rightarrow> world \<Rightarrow> (py_error + int) \<times> world" where
  "get_cursor_position ifd ofd w =
     (let wr = os_write w ofd (CHR 0x1B # ''[6n'')
      in if fst wr \<noteq> 4 then (Inr (- 1), snd wr)
         else (let rd = read_response (snd wr) ifd []
               in (parse_response (fst rd), snd rd)))"

text \<open>\<open>'%d' % n\<close>: the decimal digits of an integer, with a minus sign when negative.\<close>

fun dec_digits :: "nat \<Rightarrow> string" where
  "dec_digits n =
     (if n < 10 then [char_of (48 + n)]
      else dec_digits (n div 10) @ [char_of (48 + n mod 10)])"

definition fmt_d :: "int \<Rightarrow> string" where
  "fmt_d i = (if i < 0 then CHR ''-'' # dec_digits (nat (- i)) else dec_digits (nat i))"

definition get_columns :: "nat \<Rightarrow> nat \<Rightarrow> world \<Rightarrow> (py_error + int) \<times> world" where
  "get_columns ifd ofd w =
     (let DEFAULT_COLS = 80;
          cols0 = (case winsize w of None \<Rightarrow> 0 | Some (rows, c) \<Rightarrow> int c)
      in if cols0 = 0
         then (case get_cursor_position ifd ofd w of
                 (Inl e, w1) \<Rightarrow> (Inl e, w1)
               | (Inr start, w1) \<Rightarrow>
                   if start < 0 then (Inr DEFAULT_COLS, w1)
                   else (let wr = os_write w1 ofd (CHR 0x1B # ''[999C'')
                         in if fst wr \<noteq> 6 then (Inr DEFAULT_COLS, snd wr)
                            else (case get_cursor_position ifd ofd (snd wr) of
                                    (Inl e, w3) \<Rightarrow> (Inl e, w3)
                                  | (Inr cols1, w3) \<Rightarrow>
                                      if cols1 < 0 then (Inr DEFAULT_COLS, w3)
                                      else if cols1 > start
                                      then (Inr cols1,
                                            snd (os_write w3 ofd
                                              (CHR 0x1B # ''['' @ fmt_d (cols1 - start) @ ''D'')))
                                      else (Inr cols1, w3))))
         else (Inr cols0, w))"

section \<open>The line editor\<close>

record line_state =
  ifd :: nat
  ofd :: nat
  buf :: "nat list"
  prompt :: string
  pos :: nat
  oldpos :: nat
  cols :: int
  maxrows :: nat
  history_index :: nat

text \<open>The constructor of \<open>line_state\<close>: it runs the column query.\<close>

definition line_state_init ::
  "nat \<Rightarrow> nat \<Rightarrow> string \<Rightarrow> world \<Rightarrow> (py_error + line_state) \<times> world" where
  "line_state_init i_fd o_fd p w =
     (case get_columns i_fd o_fd w of
        (Inl e, w1) \<Rightarrow> (Inl e, w1)
      | (Inr c, w1) \<Rightarrow>
          (Inr \<lparr>ifd = i_fd, ofd = o_fd, buf = [], prompt = p, pos = 0, oldpos = 0,
                cols = c, maxrows = 0, history_index = 0\<rparr>, w1))"

definition edit_insert :: "line_state \<Rightarrow> nat \<Rightarrow> world \<Rightarrow> (py_error + line_state) \<times> world" where
  "edit_insert l c w =
     (if length (buf l) = pos l
      then (let l1 = l\<lparr>buf := buf l @ [c]\<rparr>;
                l2 = l1\<lparr>pos := pos l1 + 1\<rparr>
            in case py_chr c of
                 Inl e \<Rightarrow> (Inl e, w)
               | Inr ch \<Rightarrow> (Inr l2, snd (os_write w (ofd l2) [ch])))
      else (Inr l, w))"

text \<open>
  The \<open>while True\<close> loop of \<open>edit\<close> with the \<open>return\<close> that follows its \<open>break\<close>.
  Every round reads one byte, so the loop ends at the latest when the input does: at
  end of file \<open>os.read\<close> returns the empty string and \<open>ord\<close> raises.
\<close>

function edit_loop :: "line_state \<Rightarrow> world \<Rightarrow> (py_error + string option) \<times> world" where
  "edit_loop l w =
     (let r = os_read w (ifd l) 1
      in case py_ord (fst r) of
           Inl e \<Rightarrow> (Inl e, snd r)
         | Inr c \<Rightarrow>
             if c = ENTER
             then (case chr_join (buf l) of
                     Inl e \<Rightarrow> (Inl e, snd r)
                   | Inr line \<Rightarrow> (Inr (Some line), snd r))
             else if c = CTRL_C then (Inr None, snd r)
             else (case edit_insert l c (snd r) of
                     (Inl e, w2) \<Rightarrow> (Inl e, w2)
                   | (Inr l2, w2) \<Rightarrow> edit_loop l2 w2))"
  by pat_completeness auto
termination
proof (relation "measure (\<lambda>(l, w). length (inbytes w))")
  show "wf (measure (\<lambda>(l, w). length (inbytes w)))"
    by simp
next
  fix l :: line_state and w :: world and r c x w2 l2
  assume r: "r = os_read w (ifd l) 1"
    and c: "py_ord (fst r) = Inr c"
    and ins: "(x, w2) = edit_insert l c (snd r)"
  from r c have ne: "inbytes w \<noteq> []"
    by (cases "inbytes w") (auto simp: os_read_def)
  from r have "inbytes (snd r) = drop 1 (inbytes w)"
    by (simp add: os_read_def)
  moreover from ins have "inbytes w2 = inbytes (snd r)"
    by (auto simp: edit_insert_def os_write_def Let_def split: if_splits sum.splits)
  ultimately show "((l2, w2), (l, w)) \<in> measure (\<lambda>(l, w). length (inbytes w))"
    using ne by (cases "inbytes w") auto
qed

declare edit_loop.simps [simp del] read_response.simps [simp del]

definition edit ::
  "linenoise \<Rightarrow> nat \<Rightarrow> nat \<Rightarrow> string \<Rightarrow> world
     \<Rightarrow> (py_error + string option) \<times> linenoise \<times> world" where
  "edit self i_fd o_fd p w =
     (case line_state_init i_fd o_fd p w of
        (Inl e, w1) \<Rightarrow> (Inl e, self, w1)
      | (Inr l, w1) \<Rightarrow>
          (let self1 = history_add self [];
               wr = os_write w1 o_fd p
           in if fst wr \<noteq> length p then (Inr None, self1, snd wr)
              else (case edit_loop l (snd wr) of
                      (res, w3) \<Rightarrow> (res, self1, w3))))"

definition read_raw ::
  "linenoise \<Rightarrow> string \<Rightarrow> world \<Rightarrow> (py_error + string option) \<times> linenoise \<times> world" where
  "read_raw self p w =
     (case enable_rawmode self STDIN_FILENO w of
        (Inl e, self1, w1) \<Rightarrow> (Inl e, self1, w1)
      | (Inr rc, self1, w1) \<Rightarrow>
          if rc = - 1 then (Inr None, self1, w1)
          else (case edit self1 STDIN_FILENO STDOUT_FILENO p w1 of
                  (Inl e, self2, w2) \<Rightarrow> (Inl e, self2, w2)
                | (Inr s, self2, w2) \<Rightarrow>
                    (case disable_rawmode self2 STDIN_FILENO w2 of
                       (Inl e, self3, w3) \<Rightarrow> (Inl e, self3, w3)
                     | (Inr u, self3, w3) \<Rightarrow>
                         (Inr s, self3, sys_stdout_write w3 [CHR 0x0D, CHR 0x0A]))))"

section \<open>Invariant of the history and example states\<close>

text \<open>The two invariants of the history: no entry twice, at most \<open>history_maxlen\<close> entries.\<close>

definition ring_inv :: "linenoise \<Rightarrow> bool" where
  "ring_inv self =
     (distinct (history self) \<and> int (length (history self)) \<le> history_maxlen self)"

text \<open>A fresh object whose history and bound have been set.\<close>

definition ring_of :: "string list \<Rightarrow> int \<Rightarrow> linenoise" where
  "ring_of h n = linenoise_init\<lparr>history := h, history_maxlen := n\<rparr>"

text \<open>The attributes of a Linux terminal in its usual line-buffered, echoing mode.\<close>

definition cooked :: termios where
  "cooked =
     \<lparr>c_iflag = 0x4500, c_oflag = 0x5, c_cflag = 0xBF, c_lflag = 0x8A3B,
      c_ispeed = 15, c_ospeed = 15,
      c_cc = [3, 28, 127, 21, 4, 0, 1, 0, 17, 19, 26, 0, 18, 15, 23, 22,
              0, 0, 0, 0, 0, 0, 0, 0, 0, 0, 0, 0, 0, 0, 0, 0]\<rparr>"

text \<open>
  A terminal on descriptors 0 and 1, 24 rows by 80 columns, that will deliver the bytes
  \<open>s\<close> and then be at end of file; no files.
\<close>

definition term_world :: "string \<Rightarrow> world" where
  "term_world s =
     \<lparr>tty_fds = {0, 1}, attrs = cooked, winsize = Some (24, 80), inbytes = s,
      outbytes = [], wlimit = 4096, files = Map.empty, umask = 0x12\<rparr>"

text \<open>The same terminal when the window-size ioctl fails, so that the width is asked
  of the terminal itself.\<close>

definition query_world :: "string \<Rightarrow> world" where
  "query_world s = (term_world s)\<lparr>winsize := None\<rparr>"

text \<open>A world with one file, \<open>history.txt\<close>, of content \<open>s\<close>.\<close>

definition file_world :: "string \<Rightarrow> world" where
  "file_world s =
     (term_world [])\<lparr>files := [''history.txt'' \<mapsto> \<lparr>fmode = 0x180, content = s\<rparr>]\<rparr>"

text \<open>A history whose first entry ends with a space, as a typed command line can.\<close>

definition sp_ring :: linenoise where
  "sp_ring = ring_of [''ls -l '', ''make''] 100"

text \<open>The fresh object on the example terminal after one and after two calls of
  \<open>enable_rawmode\<close>, with no \<open>disable_rawmode\<close> between them.\<close>

definition enabled_once :: "(py_error + int) \<times> linenoise \<times> world" where
  "enabled_once = enable_rawmode linenoise_init STDIN_FILENO (term_world [])"

definition enabled_twice :: "(py_error + int) \<times> linenoise \<times> world" where
  "enabled_twice =
     enable_rawmode (fst (snd enabled_once)) STDIN_FILENO (snd (snd enabled_once))"

text \<open>\<open>disable_rawmode\<close> after the two calls of \<open>enable_rawmode\<close>.\<close>

definition disabled_after_twice :: "(py_error + unit) \<times> linenoise \<times> world" where
  "disabled_after_twice =
     disable_rawmode (fst (snd enabled_twice)) STDIN_FILENO (snd (snd enabled_twice))"

text \<open>
  Two raw-mode reads in a row on a terminal whose window-size ioctl fails. The terminal
  answers the first cursor query with \<open>ESC [ R\<close> and the next two with
  \<open>ESC [ 24 ; 80 R\<close>; then the bytes o, k, Enter are typed. The second read starts
  from the object and the world the first one left, and the exit hook runs after it.
\<close>

definition requery_input :: string where
  "requery_input =
     CHR 0x1B # ''[R'' @ CHR 0x1B # ''[24;80R'' @ CHR 0x1B # ''[24;80R'' @ ''ok'' @ [CHR 0x0D]"

definition failed_read :: "(py_error + string option) \<times> linenoise \<times> world" where
  "failed_read = read_raw linenoise_init ''> '' (query_world requery_input)"

definition second_read :: "(py_error + string option) \<times> linenoise \<times> world" where
  "second_read = read_raw (fst (snd failed_read)) ''> '' (snd (snd failed_read))"

definition exit_after_second :: "(py_error + unit) \<times> linenoise \<times> world" where
  "exit_after_second = atexit (fst (snd second_read)) (snd (snd second_read))"

text \<open>The line state at the start of the loop of \<open>edit\<close> on an 80-column terminal.\<close>

definition fresh_line :: line_state where
  "fresh_line = \<lparr>ifd = 0, ofd = 1, buf = [], prompt = ''> '', pos = 0, oldpos = 0,
     cols = 80, maxrows = 0, history_index = 0\<rparr>"

text \<open>An edit with an empty prompt on the bytes Ctrl-A, Enter.\<close>

definition ctrl_a_edit :: "(py_error + string option) \<times> linenoise \<times> world" where
  "ctrl_a_edit = edit linenoise_init 0 1 [] (term_world [CHR 0x01, CHR 0x0D])"

text \<open>A raw-mode read on a terminal that delivers the byte h and then is at end of file.\<close>

definition eof_read :: "(py_error + string option) \<times> linenoise \<times> world" where
  "eof_read = read_raw linenoise_init ''> '' (term_world ''h'')"

text \<open>Two edits on the fresh object: h, i, Enter and h, i, Ctrl-C.\<close>

definition done_edit :: "(py_error + string option) \<times> linenoise \<times> world" where
  "done_edit = edit linenoise_init 0 1 ''> '' (term_world (''hi'' @ [CHR 0x0D]))"

definition cancelled_edit :: "(py_error + string option) \<times> linenoise \<times> world" where
  "cancelled_edit = edit linenoise_init 0 1 ''> '' (term_world (''hi'' @ [CHR 0x03]))"

section \<open>The history: add, bound and load\<close>

lemma dup_scan_iff: "dup_scan line h = (line \<in> set h)"
  by (induction h) auto

text \<open>
  Claim C5. \<open>history_add\<close> changes nothing when \<open>history_maxlen\<close> is 0, and nothing
  when the line is equal to an entry already held. Otherwise the line becomes the newest
  entry, after the oldest entry has been dropped when the history holds exactly
  \<open>history_maxlen\<close> entries. With a bound of 2, adding x, y and z in this order to
  the empty history leaves exactly y, z.
\<close>

theorem history_add_spec:
  "(history_maxlen s = 0 \<longrightarrow> history_add s line = s) \<and>
   (line \<in> set (history s) \<longrightarrow> history_add s line = s) \<and>
   (history_maxlen s \<noteq> 0 \<and> line \<notin> set (history s) \<and>
      int (length (history s)) = history_maxlen s \<longrightarrow>
      history_add s line = s\<lparr>history := tl (history s) @ [line]\<rparr>) \<and>
   (history_maxlen s \<noteq> 0 \<and> line \<notin> set (history s) \<and>
      int (length (history s)) \<noteq> history_maxlen s \<longrightarrow>
      history_add s line = s\<lparr>history := history s @ [line]\<rparr>) \<and>
   history (history_add (history_add (history_add
      (s\<lparr>history := [], history_maxlen := 2\<rparr>) ''x'') ''y'') ''z'') = [''y'', ''z'']"
  by (simp add: history_add_def dup_scan_iff drop_Suc)

theorem history_add_spec_witness:
  "history_maxlen (ring_of [''a''] 0) = 0 \<and>
   history_add (ring_of [''a''] 0) ''b'' = ring_of [''a''] 0 \<and>
   ''a'' \<in> set (history (ring_of [''a'', ''b''] 3)) \<and>
   history_add (ring_of [''a'', ''b''] 3) ''a'' = ring_of [''a'', ''b''] 3 \<and>
   history_maxlen (ring_of [''a'', ''b''] 2) \<noteq> 0 \<and>
   ''c'' \<notin> set (history (ring_of [''a'', ''b''] 2)) \<and>
   int (length (history (ring_of [''a'', ''b''] 2))) = history_maxlen (ring_of [''a'', ''b''] 2) \<and>
   history_add (ring_of [''a'', ''b''] 2) ''c'' = ring_of [''b'', ''c''] 2 \<and>
   int (length (history (ring_of [''a'', ''b''] 3))) \<noteq> history_maxlen (ring_of [''a'', ''b''] 3) \<and>
   history_add (ring_of [''a'', ''b''] 3) ''c'' = ring_of [''a'', ''b'', ''c''] 3"
  using history_add_spec [of "ring_of [''a''] 0" "''b''"]
    history_add_spec [of "ring_of [''a'', ''b''] 3" "''a''"]
    history_add_spec [of "ring_of [''a'', ''b''] 2" "''c''"]
    history_add_spec [of "ring_of [''a'', ''b''] 3" "''c''"]
  by (simp add: ring_of_def linenoise_init_def)

text \<open>
  The two operations that go through the bound keep the invariant, and the fresh
  object has it.
\<close>

lemma ring_inv_init: "ring_inv linenoise_init"
  by (simp add: ring_inv_def linenoise_init_def DEFAULT_HISTORY_MAX_LEN_def)

lemma history_add_inv:
  assumes "ring_inv s"
  shows "ring_inv (history_add s line)"
proof (cases "history s")
  case Nil
  with assms show ?thesis
    by (auto simp: ring_inv_def history_add_def Let_def)
next
  case (Cons x xs)
  with assms show ?thesis
    by (auto simp: ring_inv_def history_add_def dup_scan_iff Let_def)
qed

lemma history_set_maxlen_inv: "ring_inv s \<Longrightarrow> ring_inv (history_set_maxlen s n)"
  by (auto simp: ring_inv_def history_set_maxlen_def Let_def)

text \<open>
  Claim C6. \<open>history_load\<close> assigns the stripped lines of the file to the history
  without going through \<open>history_add\<close> or the bound. On the fresh object, loading a file
  of two equal lines gives a history that holds the same entry twice; and after
  \<open>history_set_maxlen 1\<close>, loading a file of two lines gives a history of two entries
  under a bound of 1.
\<close>

theorem history_load_breaks_invariants:
  "history (history_load linenoise_init ''history.txt''
              (file_world [CHR ''a'', CHR 0x0A, CHR ''a'', CHR 0x0A])) = [''a'', ''a''] \<and>
   \<not> ring_inv (history_load linenoise_init ''history.txt''
              (file_world [CHR ''a'', CHR 0x0A, CHR ''a'', CHR 0x0A])) \<and>
   history (history_load (history_set_maxlen linenoise_init 1) ''history.txt''
              (file_world [CHR ''a'', CHR 0x0A, CHR ''b'', CHR 0x0A])) = [''a'', ''b''] \<and>
   history_maxlen (history_load (history_set_maxlen linenoise_init 1) ''history.txt''
              (file_world [CHR ''a'', CHR 0x0A, CHR ''b'', CHR 0x0A])) = 1"
  by (simp add: history_load_def os_path_isfile_def history_set_maxlen_def linenoise_init_def
      file_world_def term_world_def py_readlines_def py_strip_def is_space_def ring_inv_def)

section \<open>The history file\<close>

lemma readlines_acc_no_nl:
  "CHR 0x0A \<notin> set x \<Longrightarrow> readlines_acc cur (x @ rest) = readlines_acc (cur @ x) rest"
  by (induction x arbitrary: cur) auto

lemma py_readlines_join:
  "\<forall>e\<in>set h. CHR 0x0A \<notin> set e \<Longrightarrow>
   py_readlines (py_join (CHR 0x0A) h) =
     (if h = [] then []
      else map (\<lambda>e. e @ [CHR 0x0A]) (butlast h) @ (if last h = [] then [] else [last h]))"
proof (induction "CHR 0x0A :: char" h rule: py_join.induct)
  case 1
  then show ?case by (simp add: py_readlines_def)
next
  case (2 x)
  then show ?case
    using readlines_acc_no_nl [of x "[]" "[]"] by (simp add: py_readlines_def)
next
  case (3 x y ys)
  then show ?case
    using readlines_acc_no_nl [of x "[]" "CHR 0x0A # py_join (CHR 0x0A) (y # ys)"]
    by (simp add: py_readlines_def)
qed

lemma py_strip_snoc_nl: "py_strip (e @ [CHR 0x0A]) = py_strip e"
proof (cases "\<forall>c\<in>set e. is_space c")
  case True
  have nl: "dropWhile is_space [CHR 0x0A] = []"
    by (simp add: is_space_def)
  from True have a: "dropWhile is_space e = []"
    by simp
  have "dropWhile is_space (e @ [CHR 0x0A]) = dropWhile is_space [CHR 0x0A]"
    using True by (intro dropWhile_append2) blast
  also note nl
  finally have b: "dropWhile is_space (e @ [CHR 0x0A]) = []" .
  show ?thesis
    unfolding py_strip_def a b by (rule refl)
next
  case False
  then have "dropWhile is_space (e @ [CHR 0x0A]) = dropWhile is_space e @ [CHR 0x0A]"
    by auto
  then show ?thesis
    by (simp add: py_strip_def is_space_def)
qed

lemma files_history_save:
  "files (history_save s fname w) fname =
     Some \<lparr>fmode = 0x180, content = py_join (CHR 0x0A) (history s)\<rparr>"
  by (cases "files w fname")
    (simp_all add: history_save_def open_w_def os_chmod_def f_write_def Let_def)

text \<open>
  Claim C7, as amended. \<open>history_load\<close> strips all leading and trailing whitespace
  from every line of the file, not only the newline that ends it, and \<open>history_save\<close>
  writes no newline after the last entry. So saving and then loading gives back the same
  entries in the same order when no entry contains a newline, no entry starts or ends
  with whitespace, and the last entry is not empty. The history a, b, c is such a
  history. Loading a name that is no file gives the empty history, and no error.
\<close>

theorem save_load_roundtrip:
  "((\<forall>e\<in>set (history s). CHR 0x0A \<notin> set e \<and> py_strip e = e) \<and>
      (history s = [] \<or> last (history s) \<noteq> []) \<longrightarrow>
      history (history_load s2 fname (history_save s fname w)) = history s) \<and>
   history (history_load s2 fname (history_save (s\<lparr>history := [''a'', ''b'', ''c'']\<rparr>) fname w))
      = [''a'', ''b'', ''c''] \<and>
   (files w fname = None \<longrightarrow> history (history_load s fname w) = []) \<and>
   (files w fname = Some f \<longrightarrow>
      history (history_load s fname w) = map py_strip (py_readlines (content f)))"
proof -
  have rt: "history (history_load s2 fname (history_save s fname w)) = history s"
    if a: "\<forall>e\<in>set (history s). CHR 0x0A \<notin> set e \<and> py_strip e = e"
      and b: "history s = [] \<or> last (history s) \<noteq> []" for s
  proof (cases "history s = []")
    case True
    then show ?thesis
      by (simp add: history_load_def os_path_isfile_def files_history_save py_readlines_def)
  next
    case False
    with b have l: "last (history s) \<noteq> []" by simp
    from a have nl: "\<forall>e\<in>set (history s). CHR 0x0A \<notin> set e" by simp
    have "map py_strip (py_readlines (py_join (CHR 0x0A) (history s)))
          = map py_strip (butlast (history s)) @ [py_strip (last (history s))]"
      using False l by (simp add: py_readlines_join [OF nl] o_def py_strip_snoc_nl)
    also have "\<dots> = map py_strip (butlast (history s) @ [last (history s)])"
      by simp
    also have "\<dots> = map py_strip (history s)"
      using False by simp
    also have "\<dots> = history s"
      using a by (simp add: map_idI)
    finally show ?thesis
      by (simp add: history_load_def os_path_isfile_def files_history_save)
  qed
  have abc: "history (history_load s2 fname
      (history_save (s\<lparr>history := [''a'', ''b'', ''c'']\<rparr>) fname w)) = [''a'', ''b'', ''c'']"
    using rt [of "s\<lparr>history := [''a'', ''b'', ''c'']\<rparr>"]
    by (simp add: py_strip_def is_space_def)
  show ?thesis
    using rt abc by (simp add: history_load_def os_path_isfile_def)
qed

theorem save_load_roundtrip_witness:
  "CHR 0x0A \<notin> set ''ls -l'' \<and> py_strip ''ls -l'' = ''ls -l'' \<and>
   CHR 0x0A \<notin> set ''make'' \<and> py_strip ''make'' = ''make'' \<and>
   history (ring_of [''ls -l'', ''make''] 100) = [''ls -l'', ''make''] \<and>
   last (history (ring_of [''ls -l'', ''make''] 100)) \<noteq> [] \<and>
   history (history_load linenoise_init ''history.txt''
      (history_save (ring_of [''ls -l'', ''make''] 100) ''history.txt'' (term_world [])))
     = [''ls -l'', ''make''] \<and>
   files (term_world []) ''history.txt'' = None \<and>
   history (history_load (ring_of [''x''] 100) ''history.txt'' (term_world [])) = [] \<and>
   files (file_world [CHR '' '', CHR ''a'', CHR 0x0A]) ''history.txt'' =
     Some \<lparr>fmode = 0x180, content = [CHR '' '', CHR ''a'', CHR 0x0A]\<rparr> \<and>
   history (history_load linenoise_init ''history.txt''
      (file_world [CHR '' '', CHR ''a'', CHR 0x0A])) = [''a'']"
  using save_load_roundtrip [of "ring_of [''ls -l'', ''make''] 100" linenoise_init
      "''history.txt''" "term_world []" "\<lparr>fmode = 0, content = []\<rparr>"]
    save_load_roundtrip [of "ring_of [''x''] 100" "ring_of [''x''] 100"
      "''history.txt''" "term_world []" "\<lparr>fmode = 0, content = []\<rparr>"]
    save_load_roundtrip [of linenoise_init linenoise_init "''history.txt''"
      "file_world [CHR '' '', CHR ''a'', CHR 0x0A]"
      "\<lparr>fmode = 0x180, content = [CHR '' '', CHR ''a'', CHR 0x0A]\<rparr>"]
  by (simp add: ring_of_def linenoise_init_def term_world_def file_world_def py_strip_def
      is_space_def py_readlines_def)

text \<open>
  Claim C7 as stated fails: the entry \<open>ls -l\<close> followed by a space comes back from the
  file without its space.
\<close>

theorem save_load_counterexample:
  "history (history_load sp_ring ''history.txt'' (history_save sp_ring ''history.txt'' (term_world [])))
     = [''ls -l'', ''make''] \<and>
   history (history_load sp_ring ''history.txt'' (history_save sp_ring ''history.txt'' (term_world [])))
     \<noteq> history sp_ring"
  by (simp add: history_load_def os_path_isfile_def files_history_save sp_ring_def ring_of_def
      linenoise_init_def py_readlines_def py_strip_def is_space_def)

section \<open>Raw mode: disable and repeated enable\<close>

lemmas flag_defs = BRKINT_def ICRNL_def INPCK_def ISTRIP_def IXON_def OPOST_def CS8_def
  ECHO_def ICANON_def IEXTEN_def ISIG_def VMIN_def VTIME_def

lemma raw_termios_lflag:
  "raw_termios t = Inr r \<Longrightarrow> c_lflag r AND ECHO = 0 \<and> c_lflag r AND ICANON = 0"
  by (auto simp: raw_termios_def Let_def flag_defs and.assoc split: if_splits)

lemma raw_termios_cc: "raw_termios t = Inr r \<Longrightarrow> length (c_cc r) = length (c_cc t)"
  by (auto simp: raw_termios_def Let_def split: if_splits)

lemma raw_termios_ok:
  "VMIN < length (c_cc t) \<Longrightarrow> \<exists>r. raw_termios t = Inr r"
  by (auto simp: raw_termios_def Let_def flag_defs)

text \<open>
  \<open>disable_rawmode\<close> on an object whose raw-mode flag is not set changes neither the
  object nor the terminal attributes. \<open>enable_rawmode\<close> does not look at the flag: on
  a terminal, a second call with no \<open>disable_rawmode\<close> since the first succeeds like
  the first and saves the attributes it finds, the raw ones, over the first snapshot.
\<close>

lemma disable_noop_enable_resnapshots:
  "(\<not> rawmode s \<longrightarrow> disable_rawmode s fd w = (Inr (), s, w)) \<and>
   (os_isatty w fd \<and> VMIN < length (c_cc (attrs w)) \<longrightarrow>
      fst (enable_rawmode s fd w) = Inr 0 \<and>
      fst (enable_rawmode (fst (snd (enable_rawmode s fd w))) fd
             (snd (snd (enable_rawmode s fd w)))) = Inr 0 \<and>
      orig_termios (fst (snd (enable_rawmode s fd w))) = Some (attrs w) \<and>
      orig_termios (fst (snd (enable_rawmode (fst (snd (enable_rawmode s fd w))) fd
             (snd (snd (enable_rawmode s fd w)))))) =
        Some (attrs (snd (snd (enable_rawmode s fd w)))) \<and>
      c_lflag (attrs (snd (snd (enable_rawmode s fd w)))) AND ECHO = 0 \<and>
      c_lflag (attrs (snd (snd (enable_rawmode s fd w)))) AND ICANON = 0)"
proof -
  have dis: "\<not> rawmode s \<longrightarrow> disable_rawmode s fd w = (Inr (), s, w)"
    by (simp add: disable_rawmode_def)
  have en: "fst (enable_rawmode s fd w) = Inr 0 \<and>
      fst (enable_rawmode (fst (snd (enable_rawmode s fd w))) fd
             (snd (snd (enable_rawmode s fd w)))) = Inr 0 \<and>
      orig_termios (fst (snd (enable_rawmode s fd w))) = Some (attrs w) \<and>
      orig_termios (fst (snd (enable_rawmode (fst (snd (enable_rawmode s fd w))) fd
             (snd (snd (enable_rawmode s fd w)))))) =
        Some (attrs (snd (snd (enable_rawmode s fd w)))) \<and>
      c_lflag (attrs (snd (snd (enable_rawmode s fd w)))) AND ECHO = 0 \<and>
      c_lflag (attrs (snd (snd (enable_rawmode s fd w)))) AND ICANON = 0"
    if tty: "os_isatty w fd" and cc: "VMIN < length (c_cc (attrs w))"
  proof -
    from cc obtain r where r: "raw_termios (attrs w) = Inr r"
      using raw_termios_ok by blast
    then have "VMIN < length (c_cc r)"
      using cc by (simp add: raw_termios_cc)
    then obtain r2 where r2: "raw_termios r = Inr r2"
      using raw_termios_ok by blast
    from tty have tty2: "os_isatty (tcsetattr w fd r) fd"
      by (simp add: os_isatty_def tcsetattr_def)
    have e1: "enable_rawmode s fd w =
        (Inr 0, s\<lparr>atexit_registered := True, orig_termios := Some (attrs w), rawmode := True\<rparr>,
         tcsetattr w fd r)"
      using tty r by (simp add: enable_rawmode_def tcgetattr_def Let_def)
    show ?thesis
      using tty2 r2 raw_termios_lflag [OF r]
      by (simp add: e1) (simp add: enable_rawmode_def tcgetattr_def tcsetattr_def Let_def)
  qed
  from dis en show ?thesis by blast
qed

text \<open>
  Claim C8. A second \<open>enable_rawmode\<close> with no \<open>disable_rawmode\<close> since the
  first should fail or do nothing, so that the saved attributes stay the original
  ones. In the code it returns 0 and saves the raw attributes as \<open>orig_termios\<close>;
  the \<open>disable_rawmode\<close> that follows installs them, and the terminal stays without
  echo and canonical mode. The source reaches this by itself: a read that raises
  leaves the flag set, the next read enables again, returns its line with the terminal
  still raw, and the exit hook, with the flag clear, restores nothing.
\<close>

theorem enable_twice_corrupts_snapshot:
  "orig_termios (fst (snd enabled_once)) = Some cooked \<and>
   fst enabled_twice = Inr 0 \<and> orig_termios (fst (snd enabled_twice)) \<noteq> Some cooked \<and>
   fst disabled_after_twice = Inr () \<and>
   c_lflag (attrs (snd (snd disabled_after_twice))) AND (ECHO OR ICANON) = 0 \<and>
   c_lflag cooked AND (ECHO OR ICANON) = ECHO OR ICANON \<and>
   fst failed_read = Inl ValueError \<and> rawmode (fst (snd failed_read)) \<and>
   fst second_read = Inr (Some ''ok'') \<and>
   orig_termios (fst (snd second_read)) \<noteq> Some cooked \<and>
   c_lflag (attrs (snd (snd second_read))) AND (ECHO OR ICANON) = 0 \<and>
   c_lflag (attrs (snd (snd exit_after_second))) AND (ECHO OR ICANON) = 0"
  unfolding enabled_once_def enabled_twice_def disabled_after_twice_def failed_read_def
    second_read_def exit_after_second_def
  by code_simp

section \<open>The column query\<close>

text \<open>Writing changes only what has been written.\<close>

lemma os_write_frame [simp]:
  "inbytes (snd (os_write w fd s)) = inbytes w"
  "attrs (snd (os_write w fd s)) = attrs w"
  "winsize (snd (os_write w fd s)) = winsize w"
  "wlimit (snd (os_write w fd s)) = wlimit w"
  by (simp_all add: os_write_def Let_def)

text \<open>
  One response read takes at most 32 bytes off the input and changes nothing else.
\<close>

lemma read_response_consumes:
  "\<exists>k. k \<le> 32 - length rbuf \<and>
       snd (read_response w fd rbuf) = w\<lparr>inbytes := drop k (inbytes w)\<rparr>"
proof (induction w fd rbuf rule: read_response.induct)
  case (1 w fd rbuf)
  show ?case
  proof (cases "length rbuf < 32")
    case False
    then have "snd (read_response w fd rbuf) = w\<lparr>inbytes := drop 0 (inbytes w)\<rparr>"
      by (subst read_response.simps) simp
    then show ?thesis by blast
  next
    case lt: True
    show ?thesis
    proof (cases "fst (os_read w fd 1) = ''R''")
      case True
      with lt have "snd (read_response w fd rbuf) = w\<lparr>inbytes := drop 1 (inbytes w)\<rparr>"
        by (subst read_response.simps) (simp add: Let_def os_read_def)
      moreover from lt have "1 \<le> 32 - length rbuf" by simp
      ultimately show ?thesis by blast
    next
      case False
      from "1.IH" [OF lt refl refl False] obtain k where
        k: "k \<le> 32 - length (rbuf @ [fst (os_read w fd 1)])"
        and eq: "snd (read_response (snd (os_read w fd 1)) fd (rbuf @ [fst (os_read w fd 1)])) =
           (snd (os_read w fd 1))\<lparr>inbytes := drop k (inbytes (snd (os_read w fd 1)))\<rparr>"
        by blast
      from lt False have "snd (read_response w fd rbuf) =
          snd (read_response (snd (os_read w fd 1)) fd (rbuf @ [fst (os_read w fd 1)]))"
        by (subst read_response.simps) (simp add: Let_def)
      with eq have "snd (read_response w fd rbuf) = w\<lparr>inbytes := drop (k + 1) (inbytes w)\<rparr>"
        by (simp add: os_read_def)
      moreover from k lt have "k + 1 \<le> 32 - length rbuf" by simp
      ultimately show ?thesis by blast
    qed
  qed
qed

lemma get_cursor_position_consumes:
  "\<exists>k\<le>32. inbytes (snd (get_cursor_position i_fd o_fd w)) = drop k (inbytes w)"
proof (cases "fst (os_write w o_fd (CHR 0x1B # ''[6n'')) = 4")
  case False
  then have "inbytes (snd (get_cursor_position i_fd o_fd w)) = drop 0 (inbytes w)"
    by (simp add: get_cursor_position_def Let_def)
  then show ?thesis by blast
next
  case True
  obtain k where k: "k \<le> 32 - length ([] :: string list)"
    and eq: "snd (read_response (snd (os_write w o_fd (CHR 0x1B # ''[6n''))) i_fd []) =
      (snd (os_write w o_fd (CHR 0x1B # ''[6n'')))\<lparr>inbytes :=
         drop k (inbytes (snd (os_write w o_fd (CHR 0x1B # ''[6n''))))\<rparr>"
    using read_response_consumes by blast
  from True have "snd (get_cursor_position i_fd o_fd w) =
      snd (read_response (snd (os_write w o_fd (CHR 0x1B # ''[6n''))) i_fd [])"
    by (simp add: get_cursor_position_def Let_def)
  with eq have "inbytes (snd (get_cursor_position i_fd o_fd w)) = drop k (inbytes w)"
    by simp
  with k show ?thesis by auto
qed

text \<open>
  A response with no \<open>R\<close> among its first 32 bytes (none sent, or sent too late) fails
  the framing test, and \<open>get_columns\<close> answers the default width.
\<close>

lemma set_take_drop1: "set (take n (drop 1 xs)) \<subseteq> set (take (Suc n) xs)"
  by (cases xs) auto

lemma read_response_no_R:
  "CHR ''R'' \<notin> set (take (32 - length rbuf) (inbytes w)) \<Longrightarrow> length rbuf < 32 \<Longrightarrow>
   length (fst (read_response w fd rbuf)) = 32 \<and> last (fst (read_response w fd rbuf)) \<noteq> ''R''"
proof (induction w fd rbuf rule: read_response.induct)
  case (1 w fd rbuf)
  from "1.prems"(2) obtain m where m: "32 - length rbuf = Suc m"
    by (cases "32 - length rbuf") auto
  with "1.prems"(1) have first: "fst (os_read w fd 1) \<noteq> ''R''"
    by (cases "inbytes w") (auto simp: os_read_def)
  have unfold: "read_response w fd rbuf =
      read_response (snd (os_read w fd 1)) fd (rbuf @ [fst (os_read w fd 1)])"
    using "1.prems"(2) first by (subst read_response.simps) (simp add: Let_def)
  show ?case
  proof (cases "length rbuf < 31")
    case False
    with "1.prems"(2) have "length (rbuf @ [fst (os_read w fd 1)]) = 32" by simp
    then have "read_response (snd (os_read w fd 1)) fd (rbuf @ [fst (os_read w fd 1)]) =
        (rbuf @ [fst (os_read w fd 1)], snd (os_read w fd 1))"
      by (subst read_response.simps) simp
    with unfold first False "1.prems"(2) show ?thesis by simp
  next
    case True
    then have len: "length (rbuf @ [fst (os_read w fd 1)]) < 32" by simp
    have "32 - length rbuf = Suc (32 - length (rbuf @ [fst (os_read w fd 1)]))"
      using True by simp
    with "1.prems"(1) set_take_drop1 [of "32 - length (rbuf @ [fst (os_read w fd 1)])" "inbytes w"]
    have "CHR ''R'' \<notin> set (take (32 - length (rbuf @ [fst (os_read w fd 1)]))
        (inbytes (snd (os_read w fd 1))))"
      by (auto simp: os_read_def)
    from "1.IH" [OF "1.prems"(2) refl refl first this len] unfold show ?thesis by simp
  qed
qed

lemma parse_response_unframed:
  "length rbuf = 32 \<Longrightarrow> last rbuf \<noteq> ''R'' \<Longrightarrow> parse_response rbuf = Inr (- 1)"
  by (cases rbuf; cases "tl rbuf") (auto simp: parse_response_def)

lemma get_cursor_position_no_R:
  assumes "CHR ''R'' \<notin> set (take 32 (inbytes w))"
  shows "fst (get_cursor_position i_fd o_fd w) = Inr (- 1)"
proof (cases "fst (os_write w o_fd (CHR 0x1B # ''[6n'')) = 4")
  case False
  then show ?thesis
    by (simp add: get_cursor_position_def Let_def)
next
  case True
  from assms have "length (fst (read_response (snd (os_write w o_fd (CHR 0x1B # ''[6n''))) i_fd [])) = 32
      \<and> last (fst (read_response (snd (os_write w o_fd (CHR 0x1B # ''[6n''))) i_fd [])) \<noteq> ''R''"
    by (intro read_response_no_R) simp_all
  with True show ?thesis
    by (simp add: get_cursor_position_def Let_def parse_response_unframed)
qed

lemma get_columns_no_R:
  assumes "winsize w = None \<or> winsize w = Some (rows, 0)"
    and "CHR ''R'' \<notin> set (take 32 (inbytes w))"
  shows "fst (get_columns i_fd o_fd w) = Inr 80"
  using assms get_cursor_position_no_R [of w i_fd o_fd]
  by (cases "get_cursor_position i_fd o_fd w") (auto simp: get_columns_def Let_def)

text \<open>A width that \<open>get_columns\<close> returns is never negative.\<close>

lemma get_columns_nonneg: "fst (get_columns i_fd o_fd w) = Inr n \<Longrightarrow> 0 \<le> n"
  by (auto simp: get_columns_def Let_def split: option.splits prod.splits sum.splits if_splits)

text \<open>
  Claim C4. A response that deviates from \<open>ESC [ rows ; cols R\<close> should make
  \<open>get_columns\<close> return the default width 80 and never raise. The code tests only the
  first two bytes and the last one: a response framed by \<open>ESC [\<close> and \<open>R\<close> whose
  inside is not two fields at one \<open>;\<close>, or whose second field is no number, raises
  \<open>ValueError\<close> out of \<open>get_columns\<close>. A response without its \<open>R\<close> does give 80.
\<close>

theorem get_columns_unparsable_response_raises:
  "fst (get_columns 0 1 (query_world [CHR 0x1B, CHR ''['', CHR ''R''])) = Inl ValueError \<and>
   fst (get_columns 0 1 (query_world (CHR 0x1B # ''[24R''))) = Inl ValueError \<and>
   fst (get_columns 0 1 (query_world (CHR 0x1B # ''[24;x80R''))) = Inl ValueError \<and>
   fst (get_columns 0 1 (query_world (CHR 0x1B # ''[24;80''))) = Inr 80"
  by code_simp

section \<open>The loop of edit\<close>

lemma py_chr_of_char: "py_chr (of_char c) = Inr c"
  by (simp add: py_chr_def)

text \<open>One round of the loop on a byte that is neither Enter nor Ctrl-C.\<close>

lemma edit_loop_other:
  assumes "inbytes w = c # rest" "of_char c \<noteq> ENTER" "of_char c \<noteq> CTRL_C"
    "length (buf l) = pos l"
  shows "edit_loop l w =
     edit_loop (l\<lparr>buf := buf l @ [of_char c], pos := pos l + 1\<rparr>)
       (w\<lparr>inbytes := rest, outbytes := outbytes w @ take (wlimit w) [c]\<rparr>)"
  using assms
  by (subst edit_loop.simps)
    (simp add: os_read_def edit_insert_def py_chr_of_char os_write_def Let_def min_def)

lemma edit_loop_enter:
  assumes "inbytes w = CHR 0x0D # rest"
  shows "edit_loop l w =
     (case chr_join (buf l) of Inl e \<Rightarrow> (Inl e, w\<lparr>inbytes := rest\<rparr>)
      | Inr line \<Rightarrow> (Inr (Some line), w\<lparr>inbytes := rest\<rparr>))"
  using assms
  by (subst edit_loop.simps) (simp add: os_read_def ENTER_def Let_def split: sum.splits)

lemma edit_loop_ctrl_c:
  assumes "inbytes w = CHR 0x03 # rest"
  shows "edit_loop l w = (Inr None, w\<lparr>inbytes := rest\<rparr>)"
  using assms
  by (subst edit_loop.simps) (simp add: os_read_def ENTER_def CTRL_C_def)

lemma edit_loop_eof:
  assumes "inbytes w = []"
  shows "edit_loop l w = (Inl TypeError, w)"
  using assms
  by (subst edit_loop.simps) (simp add: os_read_def)

lemma edit_reaches_loop:
  assumes "winsize w = Some (rows, c)" "c \<noteq> 0" "length p \<le> wlimit w"
  shows "edit s i_fd o_fd p w =
     (fst (edit_loop \<lparr>ifd = i_fd, ofd = o_fd, buf = [], prompt = p, pos = 0, oldpos = 0,
                cols = int c, maxrows = 0, history_index = 0\<rparr> (w\<lparr>outbytes := outbytes w @ p\<rparr>)),
      history_add s [],
      snd (edit_loop \<lparr>ifd = i_fd, ofd = o_fd, buf = [], prompt = p, pos = 0, oldpos = 0,
                cols = int c, maxrows = 0, history_index = 0\<rparr> (w\<lparr>outbytes := outbytes w @ p\<rparr>)))"
  using assms
  by (simp add: edit_def line_state_init_def get_columns_def os_write_def Let_def min_def
      split: prod.splits)

text \<open>
  Claim C2. Started on an empty buffer, the loop returns the line \<open>hi\<close> on the bytes
  h, i, Enter, and the cancel outcome \<open>None\<close> (no line) on the bytes h, i, Ctrl-C,
  whatever bytes follow. So does \<open>edit\<close>, whenever it reaches its loop with the input
  untouched: the window-size ioctl reports a number of columns other than 0, and the
  write takes the whole prompt.
\<close>

theorem edit_hi_enter_and_interrupt:
  "(buf l = [] \<and> pos l = 0 \<longrightarrow>
      (inbytes w = ''hi'' @ [CHR 0x0D] @ rest \<longrightarrow> fst (edit_loop l w) = Inr (Some ''hi'')) \<and>
      (inbytes w = ''hi'' @ [CHR 0x03] @ rest \<longrightarrow> fst (edit_loop l w) = Inr None)) \<and>
   (winsize w = Some (rows, c) \<and> c \<noteq> 0 \<and> length p \<le> wlimit w \<longrightarrow>
      (inbytes w = ''hi'' @ [CHR 0x0D] @ rest \<longrightarrow>
         fst (edit s i_fd o_fd p w) = Inr (Some ''hi'')) \<and>
      (inbytes w = ''hi'' @ [CHR 0x03] @ rest \<longrightarrow>
         fst (edit s i_fd o_fd p w) = Inr None))"
proof -
  have loop_enter: "fst (edit_loop l w) = Inr (Some ''hi'')"
    if "buf l = []" "pos l = 0" "inbytes w = ''hi'' @ [CHR 0x0D] @ rest" for l w
    using that
    by (simp add: edit_loop_other [where c = "CHR ''h''" and rest = "''i'' @ [CHR 0x0D] @ rest"]
        edit_loop_other [where c = "CHR ''i''" and rest = "[CHR 0x0D] @ rest"]
        edit_loop_enter [where rest = rest] ENTER_def CTRL_C_def py_chr_def char_of_eq_iff)
  have loop_int: "fst (edit_loop l w) = Inr None"
    if "buf l = []" "pos l = 0" "inbytes w = ''hi'' @ [CHR 0x03] @ rest" for l w
    using that
    by (simp add: edit_loop_other [where c = "CHR ''h''" and rest = "''i'' @ [CHR 0x03] @ rest"]
        edit_loop_other [where c = "CHR ''i''" and rest = "[CHR 0x03] @ rest"]
        edit_loop_ctrl_c [where rest = rest] ENTER_def CTRL_C_def)
  show ?thesis
    using loop_enter loop_int by (auto simp: edit_reaches_loop)
qed


theorem edit_hi_enter_and_interrupt_witness:
  "buf fresh_line = [] \<and> pos fresh_line = 0 \<and>
   inbytes (term_world (''hi'' @ [CHR 0x0D])) = ''hi'' @ [CHR 0x0D] @ [] \<and>
   inbytes (term_world (''hi'' @ [CHR 0x03])) = ''hi'' @ [CHR 0x03] @ [] \<and>
   fst (edit_loop fresh_line (term_world (''hi'' @ [CHR 0x0D]))) = Inr (Some ''hi'') \<and>
   fst (edit_loop fresh_line (term_world (''hi'' @ [CHR 0x03]))) = Inr None \<and>
   winsize (term_world (''hi'' @ [CHR 0x0D])) = Some (24, 80) \<and> (80 :: nat) \<noteq> 0 \<and>
   length ''> '' \<le> wlimit (term_world (''hi'' @ [CHR 0x0D])) \<and>
   fst (edit linenoise_init 0 1 ''> '' (term_world (''hi'' @ [CHR 0x0D]))) = Inr (Some ''hi'') \<and>
   fst (edit linenoise_init 0 1 ''> '' (term_world (''hi'' @ [CHR 0x03]))) = Inr None"
  using edit_hi_enter_and_interrupt [where l = fresh_line and w = "term_world (''hi'' @ [CHR 0x0D])"
      and rest = "[]" and rows = 24 and c = 80 and p = "''> ''" and s = linenoise_init
      and i_fd = 0 and o_fd = 1]
    edit_hi_enter_and_interrupt [where l = fresh_line and w = "term_world (''hi'' @ [CHR 0x03])"
      and rest = "[]" and rows = 24 and c = 80 and p = "''> ''" and s = linenoise_init
      and i_fd = 0 and o_fd = 1]
  by (simp add: fresh_line_def term_world_def)

text \<open>
  Claim C3, as amended. The loop has no branch for the Backspace byte (127): with the
  cursor at the end of the buffer, where \<open>edit\<close> always has it, the byte is appended
  to the buffer like any other, echoed, and \<open>pos\<close> is incremented. On the bytes
  h, Backspace, Enter, \<open>edit\<close> returns the line of the two bytes h and 127.
\<close>

theorem edit_backspace_is_inserted:
  "(length (buf l) = pos l \<and> inbytes w = CHR 0x7F # rest \<longrightarrow>
      edit_loop l w =
        edit_loop (l\<lparr>buf := buf l @ [BACKSPACE], pos := pos l + 1\<rparr>)
          (w\<lparr>inbytes := rest, outbytes := outbytes w @ take (wlimit w) [CHR 0x7F]\<rparr>)) \<and>
   (winsize w = Some (rows, c) \<and> c \<noteq> 0 \<and> length p \<le> wlimit w \<and>
    inbytes w = ''h'' @ [CHR 0x7F, CHR 0x0D] @ rest \<longrightarrow>
      fst (edit s i_fd o_fd p w) = Inr (Some [CHR ''h'', CHR 0x7F]))"
proof -
  have step: "edit_loop l w =
        edit_loop (l\<lparr>buf := buf l @ [BACKSPACE], pos := pos l + 1\<rparr>)
          (w\<lparr>inbytes := rest, outbytes := outbytes w @ take (wlimit w) [CHR 0x7F]\<rparr>)"
    if "length (buf l) = pos l" "inbytes w = CHR 0x7F # rest"
    using that edit_loop_other [where c = "CHR 0x7F" and l = l and w = w and rest = rest]
    by (simp add: ENTER_def CTRL_C_def BACKSPACE_def)
  have run: "fst (edit_loop l w) = Inr (Some [CHR ''h'', CHR 0x7F])"
    if "buf l = []" "pos l = 0" "inbytes w = ''h'' @ [CHR 0x7F, CHR 0x0D] @ rest" for l w
    using that
    by (simp add: edit_loop_other [where c = "CHR ''h''" and rest = "[CHR 0x7F, CHR 0x0D] @ rest"]
        edit_loop_other [where c = "CHR 0x7F" and rest = "[CHR 0x0D] @ rest"]
        edit_loop_enter [where rest = rest] ENTER_def CTRL_C_def py_chr_def char_of_eq_iff)
  show ?thesis
    using step run by (auto simp: edit_reaches_loop)
qed

theorem edit_backspace_is_inserted_witness:
  "length (buf fresh_line) = pos fresh_line \<and>
   inbytes (term_world [CHR 0x7F]) = CHR 0x7F # [] \<and>
   edit_loop fresh_line (term_world [CHR 0x7F]) =
     edit_loop (fresh_line\<lparr>buf := [127], pos := 1\<rparr>)
       ((term_world [])\<lparr>outbytes := [CHR 0x7F]\<rparr>) \<and>
   winsize (term_world (''h'' @ [CHR 0x7F, CHR 0x0D])) = Some (24, 80) \<and> (80 :: nat) \<noteq> 0 \<and>
   length ''> '' \<le> wlimit (term_world (''h'' @ [CHR 0x7F, CHR 0x0D])) \<and>
   inbytes (term_world (''h'' @ [CHR 0x7F, CHR 0x0D])) = ''h'' @ [CHR 0x7F, CHR 0x0D] @ [] \<and>
   fst (edit linenoise_init 0 1 ''> '' (term_world (''h'' @ [CHR 0x7F, CHR 0x0D]))) =
     Inr (Some [CHR ''h'', CHR 0x7F])"
  using edit_backspace_is_inserted [where l = fresh_line and w = "term_world [CHR 0x7F]"
      and rest = "[]" and rows = 24 and c = 80 and p = "''> ''" and s = linenoise_init
      and i_fd = 0 and o_fd = 1]
    edit_backspace_is_inserted [where l = fresh_line
      and w = "term_world (''h'' @ [CHR 0x7F, CHR 0x0D])"
      and rest = "[]" and rows = 24 and c = 80 and p = "''> ''" and s = linenoise_init
      and i_fd = 0 and o_fd = 1]
  by (simp add: fresh_line_def term_world_def BACKSPACE_def)

text \<open>
  Claim C3 as stated fails: on h, Backspace, Enter the line returned is not empty.
\<close>

theorem edit_backspace_counterexample:
  "fst (edit linenoise_init 0 1 ''> '' (term_world (''h'' @ [CHR 0x7F, CHR 0x0D]))) =
     Inr (Some [CHR ''h'', CHR 0x7F]) \<and>
   fst (edit linenoise_init 0 1 ''> '' (term_world (''h'' @ [CHR 0x7F, CHR 0x0D]))) \<noteq>
     Inr (Some [])"
  by code_simp

text \<open>
  Claim C10, as amended. The loop knows two keys, Enter and Ctrl-C. Every other byte,
  printable or not, goes to \<open>edit_insert\<close>: with the cursor at the end of the buffer,
  where \<open>edit\<close> always has it, the byte is appended to the buffer, \<open>pos\<close> is
  incremented and the byte is written to the output; only with the cursor elsewhere
  does the byte change and write nothing.
\<close>

theorem edit_inserts_every_other_byte:
  "(inbytes w = c # rest \<and> of_char c \<noteq> ENTER \<and> of_char c \<noteq> CTRL_C \<and>
    length (buf l) = pos l \<longrightarrow>
      edit_loop l w =
        edit_loop (l\<lparr>buf := buf l @ [of_char c], pos := pos l + 1\<rparr>)
          (w\<lparr>inbytes := rest, outbytes := outbytes w @ take (wlimit w) [c]\<rparr>)) \<and>
   (inbytes w = c # rest \<and> of_char c \<noteq> ENTER \<and> of_char c \<noteq> CTRL_C \<and>
    length (buf l) \<noteq> pos l \<longrightarrow>
      edit_loop l w = edit_loop l (w\<lparr>inbytes := rest\<rparr>))"
proof -
  have "edit_loop l w = edit_loop l (w\<lparr>inbytes := rest\<rparr>)"
    if "inbytes w = c # rest" "of_char c \<noteq> ENTER" "of_char c \<noteq> CTRL_C"
      "length (buf l) \<noteq> pos l"
    using that
    by (subst edit_loop.simps) (simp add: os_read_def edit_insert_def Let_def)
  then show ?thesis
    using edit_loop_other [of w c rest l] by blast
qed

theorem edit_inserts_every_other_byte_witness:
  "inbytes (term_world [CHR 0x01, CHR 0x0D]) = [CHR 0x01, CHR 0x0D] \<and>
   (of_char (CHR 0x01) :: nat) \<noteq> ENTER \<and> (of_char (CHR 0x01) :: nat) \<noteq> CTRL_C \<and>
   length (buf fresh_line) = pos fresh_line \<and>
   edit_loop fresh_line (term_world [CHR 0x01, CHR 0x0D]) =
     edit_loop (fresh_line\<lparr>buf := [1], pos := 1\<rparr>)
       ((term_world [CHR 0x0D])\<lparr>outbytes := [CHR 0x01]\<rparr>) \<and>
   length (buf (fresh_line\<lparr>pos := 1\<rparr>)) \<noteq> pos (fresh_line\<lparr>pos := 1\<rparr>) \<and>
   edit_loop (fresh_line\<lparr>pos := 1\<rparr>) (term_world [CHR 0x01, CHR 0x0D]) =
     edit_loop (fresh_line\<lparr>pos := 1\<rparr>) (term_world [CHR 0x0D])"
  using edit_inserts_every_other_byte [of "term_world [CHR 0x01, CHR 0x0D]" "CHR 0x01"
      "[CHR 0x0D]" fresh_line]
    edit_inserts_every_other_byte [of "term_world [CHR 0x01, CHR 0x0D]" "CHR 0x01"
      "[CHR 0x0D]" "fresh_line\<lparr>pos := 1\<rparr>"]
  by (simp add: fresh_line_def term_world_def ENTER_def CTRL_C_def)

text \<open>
  Claim C10 as stated fails: the byte Ctrl-A, which is no key of the loop and not
  printable, ends up in the returned line and on the output.
\<close>

theorem edit_unrecognized_byte_counterexample:
  "fst ctrl_a_edit = Inr (Some [CHR 0x01]) \<and> outbytes (snd (snd ctrl_a_edit)) = [CHR 0x01] \<and>
   outbytes (snd (snd ctrl_a_edit)) \<noteq> outbytes (term_world [CHR 0x01, CHR 0x0D])"
  unfolding ctrl_a_edit_def by code_simp

section \<open>What edit and read_raw leave behind\<close>

text \<open>
  Nothing between \<open>enable_rawmode\<close> and \<open>disable_rawmode\<close> touches the terminal
  attributes, and \<open>edit\<close> changes the object in its history only, by the one
  \<open>history_add\<close> of the empty string.
\<close>

lemma read_response_attrs: "attrs (snd (read_response w fd rbuf)) = attrs w"
proof -
  obtain k where "snd (read_response w fd rbuf) = w\<lparr>inbytes := drop k (inbytes w)\<rparr>"
    using read_response_consumes by blast
  then show ?thesis by simp
qed

lemma get_cursor_position_attrs: "attrs (snd (get_cursor_position i_fd o_fd w)) = attrs w"
  by (simp add: get_cursor_position_def Let_def read_response_attrs)

lemma get_columns_attrs: "attrs (snd (get_columns i_fd o_fd w)) = attrs w"
proof -
  have a: "attrs w1 = attrs w" if "get_cursor_position i_fd o_fd w = (r, w1)" for r w1
    using get_cursor_position_attrs [of i_fd o_fd w] that by simp
  have b: "attrs w3 = attrs w1"
    if "get_cursor_position i_fd o_fd (snd (os_write w1 o_fd s)) = (r, w3)" for r w1 w3 s
    using get_cursor_position_attrs [of i_fd o_fd "snd (os_write w1 o_fd s)"] that by simp
  show ?thesis
    by (auto simp: get_columns_def Let_def a b split: option.splits prod.splits sum.splits
        dest!: a b)
qed

lemma edit_insert_attrs: "attrs (snd (edit_insert l c w)) = attrs w"
  by (simp add: edit_insert_def Let_def split: sum.splits)

lemma edit_loop_attrs: "attrs (snd (edit_loop l w)) = attrs w"
proof (induction l w rule: edit_loop.induct)
  case (1 l w)
  show ?case
  proof (cases "py_ord (fst (os_read w (ifd l) 1))")
    case (Inl e)
    then show ?thesis
      by (subst edit_loop.simps) (simp add: Let_def os_read_def)
  next
    case (Inr c)
    show ?thesis
    proof (cases "c = ENTER \<or> c = CTRL_C")
      case True
      with Inr show ?thesis
        by (subst edit_loop.simps) (auto simp: Let_def os_read_def split: sum.splits)
    next
      case False
      obtain x w2 where ins: "edit_insert l c (snd (os_read w (ifd l) 1)) = (x, w2)"
        by (cases "edit_insert l c (snd (os_read w (ifd l) 1))")
      then have w2: "attrs w2 = attrs w"
        using edit_insert_attrs [of l c "snd (os_read w (ifd l) 1)"] by (simp add: os_read_def)
      show ?thesis
      proof (cases x)
        case (Inl e)
        with Inr False ins w2 show ?thesis
          by (subst edit_loop.simps) (simp add: Let_def)
      next
        case r: (Inr l2)
        from False have "c \<noteq> ENTER" "c \<noteq> CTRL_C" by simp_all
        from "1.IH" [OF refl Inr this ins [symmetric] r] w2
        have "attrs (snd (edit_loop l2 w2)) = attrs w" by simp
        with Inr False ins r show ?thesis
          by (subst edit_loop.simps) (simp add: Let_def)
      qed
    qed
  qed
qed

lemma edit_loop_attrs_pair: "edit_loop l w = (x, w2) \<Longrightarrow> attrs w2 = attrs w"
  using edit_loop_attrs [of l w] by simp

lemma history_add_frame:
  "rawmode (history_add s line) = rawmode s"
  "orig_termios (history_add s line) = orig_termios s"
  "atexit_registered (history_add s line) = atexit_registered s"
  "history_maxlen (history_add s line) = history_maxlen s"
  by (simp_all add: history_add_def Let_def)

lemma edit_frame:
  "attrs (snd (snd (edit s i_fd o_fd p w))) = attrs w"
  "fst (snd (edit s i_fd o_fd p w)) = s \<or> fst (snd (edit s i_fd o_fd p w)) = history_add s []"
proof -
  obtain x w1 where ls: "line_state_init i_fd o_fd p w = (x, w1)"
    by (cases "line_state_init i_fd o_fd p w")
  then have w1: "attrs w1 = attrs w"
    using get_columns_attrs [of i_fd o_fd w]
    by (auto simp: line_state_init_def split: prod.splits sum.splits)
  show "attrs (snd (snd (edit s i_fd o_fd p w))) = attrs w"
    using ls w1
    by (cases x) (auto simp: edit_def Let_def split: prod.splits dest!: edit_loop_attrs_pair)
  show "fst (snd (edit s i_fd o_fd p w)) = s \<or> fst (snd (edit s i_fd o_fd p w)) = history_add s []"
    using ls
    by (cases x) (simp_all add: edit_def Let_def split: prod.splits)
qed

lemma edit_flags:
  "rawmode (fst (snd (edit s i_fd o_fd p w))) = rawmode s"
  "orig_termios (fst (snd (edit s i_fd o_fd p w))) = orig_termios s"
  using edit_frame(2) [of s i_fd o_fd p w] by (auto simp: history_add_frame)

text \<open>
  Claim C9. When an edit is done, the finished line should take the place of the empty
  placeholder that \<open>edit\<close> added to the history at its start, and a cancelled edit
  should remove the placeholder; the comment in \<open>edit\<close> says that the latest history
  entry is always the current buffer. The code adds the placeholder and never touches
  the history again: after h, i, Enter on the fresh object the line \<open>hi\<close> is returned
  and the history holds the empty string alone, and it holds the same after
  h, i, Ctrl-C.
\<close>

theorem edit_leaves_placeholder:
  "fst done_edit = Inr (Some ''hi'') \<and> history (fst (snd done_edit)) = [[]] \<and>
   last (history (fst (snd done_edit))) \<noteq> ''hi'' \<and>
   fst cancelled_edit = Inr None \<and> history (fst (snd cancelled_edit)) = [[]]"
  unfolding done_edit_def cancelled_edit_def by code_simp

text \<open>
  When \<open>read_raw\<close> returns, the attributes are those it found and the raw-mode flag is
  clear. When it raises, they are not restored until the exit hook runs.
\<close>

lemma read_raw_return_restores:
  assumes "\<not> rawmode s" and "read_raw s p w = (Inr r, s2, w2)"
  shows "attrs w2 = attrs w \<and> \<not> rawmode s2"
proof (cases "os_isatty w STDIN_FILENO")
  case False
  with assms show ?thesis
    by (auto simp: read_raw_def enable_rawmode_def)
next
  case True
  show ?thesis
  proof (cases "raw_termios (attrs w)")
    case (Inl e)
    with True assms show ?thesis
      by (simp add: read_raw_def enable_rawmode_def tcgetattr_def Let_def)
  next
    case (Inr t)
    define s1 where "s1 = s\<lparr>atexit_registered := True, orig_termios := Some (attrs w),
      rawmode := True\<rparr>"
    define w1 where "w1 = w\<lparr>attrs := t\<rparr>"
    have en: "enable_rawmode s STDIN_FILENO w = (Inr 0, s1, w1)"
      using True Inr
      by (simp add: enable_rawmode_def tcgetattr_def tcsetattr_def Let_def s1_def w1_def)
    obtain x sa wa where ed: "edit s1 STDIN_FILENO STDOUT_FILENO p w1 = (x, sa, wa)"
      by (cases "edit s1 STDIN_FILENO STDOUT_FILENO p w1")
    have sa: "rawmode sa" "orig_termios sa = Some (attrs w)"
      using edit_flags [of s1 STDIN_FILENO STDOUT_FILENO p w1] ed by (simp_all add: s1_def)
    from assms(2) en ed sa show ?thesis
      by (cases x)
        (auto simp: read_raw_def disable_rawmode_def tcsetattr_def sys_stdout_write_def)
  qed
qed

lemma atexit_after_read_raw_error:
  assumes "\<not> rawmode s" and "read_raw s p w = (Inl e, s2, w2)"
  shows "attrs (snd (snd (atexit s2 w2))) = attrs w \<and> \<not> rawmode (fst (snd (atexit s2 w2)))"
proof (cases "os_isatty w STDIN_FILENO")
  case False
  with assms show ?thesis
    by (auto simp: read_raw_def enable_rawmode_def)
next
  case True
  show ?thesis
  proof (cases "raw_termios (attrs w)")
    case (Inl e2)
    with True assms show ?thesis
      by (auto simp: read_raw_def enable_rawmode_def tcgetattr_def tcsetattr_def Let_def
          atexit_def disable_rawmode_def sys_stdout_write_def split: if_splits)
  next
    case (Inr t)
    define s1 where "s1 = s\<lparr>atexit_registered := True, orig_termios := Some (attrs w),
      rawmode := True\<rparr>"
    define w1 where "w1 = w\<lparr>attrs := t\<rparr>"
    have en: "enable_rawmode s STDIN_FILENO w = (Inr 0, s1, w1)"
      using True Inr
      by (simp add: enable_rawmode_def tcgetattr_def tcsetattr_def Let_def s1_def w1_def)
    obtain x sa wa where ed: "edit s1 STDIN_FILENO STDOUT_FILENO p w1 = (x, sa, wa)"
      by (cases "edit s1 STDIN_FILENO STDOUT_FILENO p w1")
    have sa: "rawmode sa" "orig_termios sa = Some (attrs w)"
      using edit_flags [of s1 STDIN_FILENO STDOUT_FILENO p w1] ed by (simp_all add: s1_def)
    from assms(2) en ed sa show ?thesis
      by (cases x)
        (auto simp: read_raw_def disable_rawmode_def tcsetattr_def sys_stdout_write_def
          atexit_def)
  qed
qed

text \<open>
  Claim C1. Every way out of \<open>read_raw\<close> should leave the terminal attributes
  restored and the raw-mode flag clear. At end of input in the middle of an edit,
  \<open>os.read\<close> returns the empty string and \<open>ord\<close> raises \<open>TypeError\<close>; the
  exception leaves \<open>read_raw\<close> before its \<open>disable_rawmode\<close>: the flag is still set
  and the terminal still has echo and canonical mode off, which it had on before.
\<close>

theorem read_raw_eof_leaves_raw:
  "fst eof_read = Inl TypeError \<and> rawmode (fst (snd eof_read)) \<and>
   attrs (snd (snd eof_read)) \<noteq> attrs (term_world ''h'') \<and>
   c_lflag (attrs (snd (snd eof_read))) AND ECHO = 0 \<and>
   c_lflag (attrs (snd (snd eof_read))) AND ICANON = 0 \<and>
   c_lflag (attrs (term_world ''h'')) AND ECHO = ECHO \<and>
   c_lflag (attrs (term_world ''h'')) AND ICANON = ICANON"
  unfolding eof_read_def by code_simp

end
